theory Spec2Isabelle
  imports Main "HOL-Library.Sublist"
begin

section \<open>Go run-time values used by main.go\<close>

text \<open>
  The program is one Go file, \<^verbatim>\<open>main.go\<close>. Its functions read the process
  environment, the file system, the clock and a subprocess; each of these is an explicit
  argument of the model. Values of the Go standard library that the program computes with
  (\<^verbatim>\<open>time.Duration\<close>, \<^verbatim>\<open>time.Time\<close>, \<^verbatim>\<open>http.ResponseWriter\<close>,
  \<^verbatim>\<open>http.ServeMux\<close>) are modelled after their documented behaviour.
\<close>

subsection \<open>time.Duration and time.Time\<close>

text \<open>
  A \<^verbatim>\<open>time.Duration\<close> is an int64 count of nanoseconds. It is modelled as an
  \<open>int\<close>; where Go's arithmetic can leave the int64 range the wrap-around is written out
  with \<open>int64\<close>. A \<^verbatim>\<open>time.Time\<close> is an instant of the wall clock, modelled as
  its (unbounded) number of nanoseconds since the epoch.
\<close>

type_synonym Duration = int
type_synonym Time = int

definition minDuration :: Duration where
  "minDuration = - (2 ^ 63)"

definition maxDuration :: Duration where
  "maxDuration = 2 ^ 63 - 1"

definition Microsecond :: Duration where
  "Microsecond = 1000"

definition Millisecond :: Duration where
  "Millisecond = 1000000"

definition Second :: Duration where
  "Second = 1000000000"

definition Minute :: Duration where
  "Minute = 60 * Second"

definition int64 :: "int \<Rightarrow> int" where
  \<comment> \<open>the value an int64 holds after a wrapping operation with exact result \<open>x\<close>\<close>
  "int64 x = (x + 2 ^ 63) mod 2 ^ 64 - 2 ^ 63"

definition uint64 :: "int \<Rightarrow> int" where
  \<comment> \<open>the conversion \<^verbatim>\<open>uint64(x)\<close>\<close>
  "uint64 x = x mod 2 ^ 64"

definition Time_Sub :: "Time \<Rightarrow> Time \<Rightarrow> Duration" where
  \<comment> \<open>\<^verbatim>\<open>t.Sub(u)\<close>: the duration \<open>t - u\<close>, or the maximum (minimum) duration
      when the difference does not fit\<close>
  "Time_Sub t u =
     (let d = t - u in
      if d < minDuration then minDuration
      else if maxDuration < d then maxDuration
      else d)"

definition time_Since :: "Time \<Rightarrow> Time \<Rightarrow> Duration" where
  \<comment> \<open>\<^verbatim>\<open>time.Since(t)\<close> is \<^verbatim>\<open>time.Now().Sub(t)\<close>; the clock reading is the first argument\<close>
  "time_Since now t = Time_Sub now t"

definition go_rem :: "int \<Rightarrow> int \<Rightarrow> int" where
  \<comment> \<open>Go's \<^verbatim>\<open>%\<close> on integers: the remainder of the division truncated towards zero\<close>
  "go_rem a b = (if a < 0 then - ((- a) mod \<bar>b\<bar>) else a mod \<bar>b\<bar>)"

definition lessThanHalf :: "Duration \<Rightarrow> Duration \<Rightarrow> bool" where
  "lessThanHalf x y = (uint64 (uint64 x + uint64 x) < uint64 y)"

definition Duration_Round :: "Duration \<Rightarrow> Duration \<Rightarrow> Duration" where
  \<comment> \<open>\<^verbatim>\<open>d.Round(m)\<close>: halfway values round away from zero\<close>
  "Duration_Round d m =
     (if m \<le> 0 then d
      else
        let r = go_rem d m in
        if d < 0 then
          (let r' = - r in
           if lessThanHalf r' m then int64 (d + r')
           else
             let d1 = int64 (d - m + r') in
             if d1 < d then d1 else minDuration)
        else if lessThanHalf r m then int64 (d - r)
        else
          let d1 = int64 (d + m - r) in
          if d < d1 then d1 else maxDuration)"

subsection \<open>Duration.String\<close>

text \<open>
  \<^verbatim>\<open>Duration.String\<close> fills a 32-byte buffer from its end. The model keeps the
  part of the buffer already written, \<^verbatim>\<open>buf[w:]\<close>, as a string; writing a byte in
  front of it is \<open>#\<close>.
\<close>

definition digit_char :: "int \<Rightarrow> char" where
  \<comment> \<open>\<^verbatim>\<open>byte(digit) + '0'\<close>\<close>
  "digit_char n = char_of (48 + n)"

fun fmtFrac_loop :: "nat \<Rightarrow> int \<Rightarrow> bool \<Rightarrow> string \<Rightarrow> string \<times> int \<times> bool" where
  "fmtFrac_loop 0 v pr buf = (buf, v, pr)"
| "fmtFrac_loop (Suc i) v pr buf =
     (let digit = v mod 10;
          pr' = (pr \<or> digit \<noteq> 0)
      in fmtFrac_loop i (v div 10) pr' (if pr' then digit_char digit # buf else buf))"

definition fmtFrac :: "string \<Rightarrow> int \<Rightarrow> nat \<Rightarrow> string \<times> int" where
  \<comment> \<open>the fraction of \<open>v / 10 ^ prec\<close> without trailing zeros, and \<open>v div 10 ^ prec\<close>\<close>
  "fmtFrac buf v prec =
     (case fmtFrac_loop prec v False buf of
        (buf', v', pr) \<Rightarrow> (if pr then CHR ''.'' # buf' else buf', v'))"

function fmtInt_loop :: "string \<Rightarrow> int \<Rightarrow> string" where
  "fmtInt_loop buf v = (if 0 < v then fmtInt_loop (digit_char (v mod 10) # buf) (v div 10) else buf)"
  by pat_completeness auto
termination
  by (relation "measure (\<lambda>(buf, v). nat v)") auto

declare fmtInt_loop.simps [simp del]

definition fmtInt :: "string \<Rightarrow> int \<Rightarrow> string" where
  "fmtInt buf v = (if v = 0 then CHR ''0'' # buf else fmtInt_loop buf v)"

definition Duration_format :: "int \<Rightarrow> string" where
  \<comment> \<open>the text of the absolute value \<open>u\<close>, a uint64 count of nanoseconds\<close>
  "Duration_format u =
     (if u < Second then
        (if u = 0 then ''0s''
         else if u < Microsecond then
           (case fmtFrac ''ns'' u 0 of (buf, u') \<Rightarrow> fmtInt buf u')
         else if u < Millisecond then
           (case fmtFrac [char_of (0xC2 :: nat), char_of (0xB5 :: nat), CHR ''s''] u 3 of
              (buf, u') \<Rightarrow> fmtInt buf u')
         else
           (case fmtFrac ''ms'' u 6 of (buf, u') \<Rightarrow> fmtInt buf u'))
      else
        (case fmtFrac ''s'' u 9 of
           (buf, u') \<Rightarrow>
             let buf1 = fmtInt buf (u' mod 60);
                 u1 = u' div 60
             in if 0 < u1 then
                  (let buf2 = fmtInt (CHR ''m'' # buf1) (u1 mod 60);
                       u2 = u1 div 60
                   in if 0 < u2 then fmtInt (CHR ''h'' # buf2) u2 else buf2)
                else buf1))"

definition Duration_String :: "Duration \<Rightarrow> string" where
  "Duration_String d =
     (let u = \<bar>d\<bar>;
          s = Duration_format u
      in if d < 0 then CHR ''-'' # s else s)"

section \<open>The world the server reads\<close>

text \<open>
  \<^verbatim>\<open>os.Stat\<close> returns either an error or a \<^verbatim>\<open>FileInfo\<close>. Of an error the
  program reads \<^verbatim>\<open>os.IsNotExist(err)\<close> and \<^verbatim>\<open>err.Error()\<close>; of a
  \<^verbatim>\<open>FileInfo\<close> it reads \<^verbatim>\<open>IsDir()\<close> and \<^verbatim>\<open>ModTime()\<close>.
\<close>

record os_error =
  IsNotExist :: bool
  Error :: string

record FileInfo =
  IsDir :: bool
  ModTime :: Time

text \<open>
  \<^verbatim>\<open>cmd.Run()\<close> under a context with a deadline: the program reads whether
  \<^verbatim>\<open>Run\<close> returned an error and whether \<^verbatim>\<open>ctx.Err()\<close> is
  \<^verbatim>\<open>context.DeadlineExceeded\<close> afterwards.
\<close>

datatype exec_error =
    ExitError int  \<comment> \<open>the command ran and exited with a non-zero code\<close>
  | ErrNotFound  \<comment> \<open>no \<^verbatim>\<open>systemctl\<close> executable\<close>
  | Killed  \<comment> \<open>the command was killed\<close>
  | OtherError string

record run_outcome =
  run_err :: "exec_error option"
  ctx_DeadlineExceeded :: bool

record world =
  os_Stat :: "string \<Rightarrow> os_error + FileInfo"
  time_Now :: Time  \<comment> \<open>the clock when the handler builds its \<^verbatim>\<open>Result\<close>\<close>
  time_Now_Since :: Time  \<comment> \<open>the clock when \<^verbatim>\<open>time.Since\<close> reads it\<close>
  systemctl_is_active :: "string \<Rightarrow> Duration \<Rightarrow> run_outcome"

section \<open>The check providers\<close>

definition checkHealthFile :: "world \<Rightarrow> string \<Rightarrow> Duration \<Rightarrow> bool \<times> string" where
  "checkHealthFile w path maxAge =
     (case os_Stat w path of
        Inl err \<Rightarrow>
          if IsNotExist err then (False, ''health file missing'')
          else (False, ''stat error: '' @ Error err)
      | Inr fi \<Rightarrow>
          if IsDir fi then (False, ''health file path is a directory'')
          else if 0 < maxAge then
            (let age = time_Since (time_Now_Since w) (ModTime fi) in
             if maxAge < age then
               (False,
                ''health file too old: '' @ Duration_String (Duration_Round age Second)
                  @ '' > '' @ Duration_String maxAge)
             else (True, ''present''))
          else (True, ''present''))"

definition checkSystemd :: "world \<Rightarrow> string \<Rightarrow> Duration \<Rightarrow> bool \<times> string" where
  "checkSystemd w unit timeout =
     (let out = systemctl_is_active w unit timeout in
      if run_err out = None then (True, ''active'')
      else if ctx_DeadlineExceeded out then (False, ''systemctl timeout'')
      else (False, ''not active''))"

section \<open>Configuration from the environment\<close>

text \<open>
  The environment is a partial map from names to values; \<^verbatim>\<open>os.Getenv\<close> returns the
  empty string for a name that is not set. \<^verbatim>\<open>time.ParseDuration\<close>,
  \<^verbatim>\<open>strconv.Atoi\<close>, \<^verbatim>\<open>strings.ToLower\<close> and
  \<^verbatim>\<open>strings.TrimSpace\<close> are library functions the program calls; the model takes
  them as parameters (\<open>None\<close> is a non-nil error).
\<close>

type_synonym environ = "string \<rightharpoonup> string"

record stdlib =
  ParseDuration :: "string \<Rightarrow> Duration option"
  Atoi :: "string \<Rightarrow> int option"
  ToLower :: "string \<Rightarrow> string"
  TrimSpace :: "string \<Rightarrow> string"

definition os_Getenv :: "environ \<Rightarrow> string \<Rightarrow> string" where
  "os_Getenv e k = (case e k of None \<Rightarrow> [] | Some v \<Rightarrow> v)"

definition getenv :: "environ \<Rightarrow> string \<Rightarrow> string \<Rightarrow> string" where
  "getenv e k d = (let v = os_Getenv e k in if v \<noteq> [] then v else d)"

definition parseDurationEnv :: "stdlib \<Rightarrow> environ \<Rightarrow> string \<Rightarrow> Duration \<Rightarrow> Duration" where
  "parseDurationEnv lib e k d =
     (let v = os_Getenv e k in
      if v = [] then d
      else case ParseDuration lib v of None \<Rightarrow> d | Some dd \<Rightarrow> dd)"

definition parseBoolEnv :: "stdlib \<Rightarrow> environ \<Rightarrow> string \<Rightarrow> bool \<Rightarrow> bool" where
  "parseBoolEnv lib e k d =
     (let v = TrimSpace lib (ToLower lib (os_Getenv e k)) in
      if v = [] then d
      else v = ''1'' \<or> v = ''true'' \<or> v = ''yes'' \<or> v = ''on'')"

definition init :: "stdlib \<Rightarrow> environ \<Rightarrow> environ" where
  \<comment> \<open>\<^verbatim>\<open>func init()\<close>; \<^verbatim>\<open>net.JoinHostPort("", p)\<close> of a port without a
      colon is \<^verbatim>\<open>":" + p\<close>\<close>
  "init lib e =
     (let p = os_Getenv e ''PORT'' in
      if p \<noteq> [] \<and> os_Getenv e ''LISTEN_ADDR'' = [] then
        (case Atoi lib p of
           Some _ \<Rightarrow> e(''LISTEN_ADDR'' \<mapsto> CHR '':'' # p)
         | None \<Rightarrow> e)
      else e)"

record config =
  listenAddr :: string
  healthFile :: string
  maxAge :: Duration
  certFile :: string
  keyFile :: string
  enableSystemd :: bool
  systemdUnit :: string
  systemdTimeout :: Duration

definition main_config :: "stdlib \<Rightarrow> environ \<Rightarrow> config" where
  \<comment> \<open>the variables \<^verbatim>\<open>main\<close> resolves before it builds the mux, after \<^verbatim>\<open>init\<close> has run\<close>
  "main_config lib e0 =
     (let e = init lib e0 in
      \<lparr> listenAddr = getenv e ''LISTEN_ADDR'' '':8443'',
        healthFile = getenv e ''NEWT_HEALTH_FILE'' ''/tmp/newt-healthy'',
        maxAge = parseDurationEnv lib e ''MAX_AGE'' (2 * Minute),
        certFile = os_Getenv e ''TLS_CERT_FILE'',
        keyFile = os_Getenv e ''TLS_KEY_FILE'',
        enableSystemd = parseBoolEnv lib e ''CHECK_SYSTEMD'' False,
        systemdUnit = getenv e ''SYSTEMD_UNIT'' ''newt'',
        systemdTimeout = parseDurationEnv lib e ''SYSTEMD_TIMEOUT'' (1 * Second) \<rparr>)"

section \<open>The HTTP surface\<close>

record CheckDetail =
  OK :: bool
  Message :: string

record Result =
  OK :: bool
  Now :: Time
  Checks :: "string \<rightharpoonup> CheckDetail"

text \<open>
  What a handler writes to its \<^verbatim>\<open>http.ResponseWriter\<close>, in the order it reaches the
  connection: one header block (status code and the header map as it is when
  \<^verbatim>\<open>WriteHeader\<close> is called) and the chunks of the body. A body chunk is either raw
  bytes or the JSON encoding of a \<^verbatim>\<open>Result\<close>, kept as the value encoded.
  As net/http documents, \<^verbatim>\<open>WriteHeader\<close> sends the header map as it is at that
  moment, changing the map afterwards has no effect on the response, a second
  \<^verbatim>\<open>WriteHeader\<close> is ignored, and \<^verbatim>\<open>Write\<close> calls
  \<^verbatim>\<open>WriteHeader(http.StatusOK)\<close> first when no header has been written. (When the
  block written has no Content-Type, the server fills in one it detects from the first bytes
  of the body; that step is not part of the handler and is not modelled.) The handler
  discards the encoder's error; the model takes the encoding of a \<^verbatim>\<open>Result\<close> to
  succeed, as it does whenever the year of its time is between 0 and 9999.
\<close>

datatype payload = Bytes string | JSON Result

datatype wire = HeaderBlock nat "string \<rightharpoonup> string" | BodyChunk payload

record ResponseWriter =
  Header :: "string \<rightharpoonup> string"
  wroteHeader :: bool
  sent :: "wire list"

definition new_ResponseWriter :: ResponseWriter where
  "new_ResponseWriter = \<lparr> Header = Map.empty, wroteHeader = False, sent = [] \<rparr>"

definition StatusOK :: nat where
  "StatusOK = 200"

definition StatusServiceUnavailable :: nat where
  "StatusServiceUnavailable = 503"

definition WriteHeader :: "nat \<Rightarrow> ResponseWriter \<Rightarrow> ResponseWriter" where
  "WriteHeader code rw =
     (if wroteHeader rw then rw
      else rw\<lparr> wroteHeader := True, sent := sent rw @ [HeaderBlock code (Header rw)] \<rparr>)"

definition Header_Set :: "string \<Rightarrow> string \<Rightarrow> ResponseWriter \<Rightarrow> ResponseWriter" where
  "Header_Set k v rw = rw\<lparr> Header := (Header rw)(k \<mapsto> v) \<rparr>"

definition Write :: "payload \<Rightarrow> ResponseWriter \<Rightarrow> ResponseWriter" where
  "Write p rw =
     (let rw' = (if wroteHeader rw then rw else WriteHeader StatusOK rw)
      in rw'\<lparr> sent := sent rw' @ [BodyChunk p] \<rparr>)"

definition Encode :: "Result \<Rightarrow> ResponseWriter \<Rightarrow> ResponseWriter" where
  \<comment> \<open>\<^verbatim>\<open>json.NewEncoder(w).Encode(res)\<close>: one \<^verbatim>\<open>Write\<close> of the encoded value\<close>
  "Encode res rw = Write (JSON res) rw"

definition healthz :: "config \<Rightarrow> world \<Rightarrow> ResponseWriter \<Rightarrow> ResponseWriter" where
  "healthz cfg w rw =
     (let res0 = \<lparr> OK = False, Now = time_Now w, Checks = Map.empty \<rparr>;
          (okFile, msgFile) = checkHealthFile w (healthFile cfg) (maxAge cfg);
          res1 = res0\<lparr> Checks := (Checks res0)(''newt_health_file'' \<mapsto>
                    \<lparr> CheckDetail.OK = okFile, Message = msgFile \<rparr>) \<rparr>;
          overall0 = okFile;
          (res2, overall) =
            (if enableSystemd cfg then
               (let (okSys, msgSys) = checkSystemd w (systemdUnit cfg) (systemdTimeout cfg)
                in (res1\<lparr> Checks := (Checks res1)(''systemd'' \<mapsto>
                          \<lparr> CheckDetail.OK = okSys, Message = msgSys \<rparr>) \<rparr>,
                    overall0 \<and> okSys))
             else (res1, overall0));
          res = res2\<lparr> OK := overall \<rparr>;
          rw1 = (if overall then WriteHeader StatusOK rw
                 else WriteHeader StatusServiceUnavailable rw);
          rw2 = Header_Set ''Content-Type'' ''application/json'' rw1
      in Encode res rw2)"

definition root :: "ResponseWriter \<Rightarrow> ResponseWriter" where
  \<comment> \<open>the handler registered for the pattern \<^verbatim>\<open>"/"\<close>\<close>
  "root rw = Write (Bytes (''ok'' @ [char_of (10 :: nat)])) (WriteHeader StatusOK rw)"

subsection \<open>The request multiplexer\<close>

text \<open>
  \<^verbatim>\<open>main\<close> registers two patterns on an \<^verbatim>\<open>http.ServeMux\<close>:
  \<^verbatim>\<open>"/healthz"\<close> and \<^verbatim>\<open>"/"\<close>. The model follows the mux of net/http since
  Go 1.22 for ordinary requests (any method but CONNECT, a request target other than
  \<^verbatim>\<open>*\<close>) and is a function of the request's escaped path,
  \<^verbatim>\<open>r.URL.EscapedPath()\<close>. The mux cleans the escaped path, looks the cleaned path up
  in its tree of patterns one segment at a time, each segment unescaped, and answers with a
  redirect when cleaning has changed the path. With the two patterns of \<^verbatim>\<open>main\<close>
  the tree has a literal child \<^verbatim>\<open>healthz\<close>, which matches when the path ends after
  that segment, and the multi-segment wildcard of the pattern \<^verbatim>\<open>"/"\<close>, which matches
  whatever the literal child does not; only the empty path matches nothing and gets
  \<^verbatim>\<open>http.NotFound\<close>. The redirect is \<^verbatim>\<open>http.RedirectHandler\<close>'s; its status
  code and headers are net/http's choice (they differ between toolchains), so the model
  takes that handler as a parameter.

  \<^verbatim>\<open>path.Clean\<close> on a rooted path: drop empty and \<^verbatim>\<open>.\<close> elements, let
  \<^verbatim>\<open>..\<close> remove the element before it (or nothing at the root).
\<close>

record net_http =
  RedirectHandler :: "string \<Rightarrow> ResponseWriter \<Rightarrow> ResponseWriter"

fun elements :: "string \<Rightarrow> string list" where
  \<comment> \<open>the elements of a path between its slashes\<close>
  "elements [] = [[]]"
| "elements (c # cs) =
     (if c = CHR ''/'' then [] # elements cs
      else (case elements cs of
              [] \<Rightarrow> [[c]]
            | e # es \<Rightarrow> (c # e) # es))"

fun clean_elements :: "string list \<Rightarrow> string list \<Rightarrow> string list" where
  \<comment> \<open>the first argument holds the elements kept so far, last first\<close>
  "clean_elements out [] = rev out"
| "clean_elements out (e # es) =
     (if e = [] \<or> e = ''.'' then clean_elements out es
      else if e = ''..'' then clean_elements (tl out) es
      else clean_elements (e # out) es)"

definition path_Clean :: "string \<Rightarrow> string" where
  \<comment> \<open>\<^verbatim>\<open>path.Clean\<close> of a path that begins with a slash\<close>
  "path_Clean p =
     (case clean_elements [] (elements p) of
        [] \<Rightarrow> ''/''
      | es \<Rightarrow> concat (map (\<lambda>e. CHR ''/'' # e) es))"

definition cleanPath :: "string \<Rightarrow> string" where
  \<comment> \<open>net/http's \<^verbatim>\<open>cleanPath\<close>: \<^verbatim>\<open>path.Clean\<close>, keeping a trailing slash\<close>
  "cleanPath p0 =
     (if p0 = [] then ''/''
      else
        let p = (if hd p0 \<noteq> CHR ''/'' then CHR ''/'' # p0 else p0);
            np = path_Clean p
        in if last p = CHR ''/'' \<and> np \<noteq> ''/'' then
             (if length p = length np + 1 \<and> prefix np p then p else np @ ''/'')
           else np)"

definition StatusNotFound :: nat where
  "StatusNotFound = 404"

definition NotFound :: "ResponseWriter \<Rightarrow> ResponseWriter" where
  \<comment> \<open>\<^verbatim>\<open>http.NotFound\<close>: a 404 with a plain-text body\<close>
  "NotFound rw =
     Write (Bytes (''404 page not found'' @ [char_of (10 :: nat)]))
       (WriteHeader StatusNotFound
          (Header_Set ''X-Content-Type-Options'' ''nosniff''
             (Header_Set ''Content-Type'' ''text/plain; charset=utf-8'' rw)))"

definition unhex :: "char \<Rightarrow> nat option" where
  \<comment> \<open>the value of a hexadecimal digit; \<open>None\<close> where \<^verbatim>\<open>ishex\<close> is false\<close>
  "unhex c =
     (let n = (of_char c :: nat) in
      if 48 \<le> n \<and> n \<le> 57 then Some (n - 48)
      else if 97 \<le> n \<and> n \<le> 102 then Some (n - 97 + 10)
      else if 65 \<le> n \<and> n \<le> 70 then Some (n - 65 + 10)
      else None)"

fun unescape :: "string \<Rightarrow> string option" where
  \<comment> \<open>\<^verbatim>\<open>url.PathUnescape\<close>: each \<^verbatim>\<open>%XY\<close> becomes one byte; \<open>None\<close> is its
      error, for a \<^verbatim>\<open>%\<close> that two hexadecimal digits do not follow\<close>
  "unescape [] = Some []"
| "unescape (c # cs) =
     (if c = CHR ''%'' then
        (case cs of
           a # b # rest \<Rightarrow>
             (case (unhex a, unhex b) of
                (Some x, Some y) \<Rightarrow>
                  (case unescape rest of
                     Some u \<Rightarrow> Some (char_of (16 * x + y) # u)
                   | None \<Rightarrow> None)
              | _ \<Rightarrow> None)
         | _ \<Rightarrow> None)
      else
        (case unescape cs of
           Some u \<Rightarrow> Some (c # u)
         | None \<Rightarrow> None))"

definition pathUnescape :: "string \<Rightarrow> string" where
  \<comment> \<open>the mux's \<^verbatim>\<open>pathUnescape\<close>: the text itself when it cannot be unescaped\<close>
  "pathUnescape s = (case unescape s of Some u \<Rightarrow> u | None \<Rightarrow> s)"

definition firstSegment :: "string \<Rightarrow> string \<times> string" where
  \<comment> \<open>the first segment of a path, unescaped, and the rest of the path\<close>
  "firstSegment path =
     (if path = ''/'' then (''/'', [])
      else
        let p = tl path
        in (pathUnescape (takeWhile (\<lambda>c. c \<noteq> CHR ''/'') p),
            dropWhile (\<lambda>c. c \<noteq> CHR ''/'') p))"

definition ServeMux_match :: "string \<Rightarrow> string option" where
  \<comment> \<open>the pattern registered in \<^verbatim>\<open>main\<close> that matches a path, if any\<close>
  "ServeMux_match path =
     (if path = [] then None
      else
        (case firstSegment path of
           (seg, rest) \<Rightarrow>
             if seg = ''healthz'' \<and> rest = [] then Some ''/healthz''
             else Some ''/''))"

definition ServeHTTP :: "net_http \<Rightarrow> config \<Rightarrow> world \<Rightarrow> string \<Rightarrow> ResponseWriter" where
  \<comment> \<open>what the mux built in \<^verbatim>\<open>main\<close> sends for a request with this escaped path\<close>
  "ServeHTTP http cfg w escapedPath =
     (let rw = new_ResponseWriter;
          path = cleanPath escapedPath
      in if path \<noteq> escapedPath then RedirectHandler http path rw
         else
           (case ServeMux_match path of
              None \<Rightarrow> NotFound rw
            | Some pat \<Rightarrow>
                if pat = ''/healthz'' then healthz cfg w rw else root rw))"

section \<open>Example inputs\<close>

text \<open>
  Concrete inputs at which the theorems below are instantiated: a library whose
  \<^verbatim>\<open>ParseDuration\<close> accepts three texts, a redirect handler, and a world with
  one marker path, a clock and a fixed answer of the service manager.
\<close>

definition example_lib :: stdlib where
  "example_lib =
     \<lparr> ParseDuration =
         (\<lambda>s. if s = ''30s'' then Some (30 * Second)
              else if s = ''1.5s'' then Some 1500000000
              else if s = ''0'' then Some 0
              else None),
       Atoi = (\<lambda>s. None),
       ToLower = (\<lambda>s. s),
       TrimSpace = (\<lambda>s. s) \<rparr>"

definition example_http :: net_http where
  \<comment> \<open>a redirect handler that sends a 307 with the Location of the cleaned path\<close>
  "example_http =
     \<lparr> RedirectHandler = (\<lambda>url rw. WriteHeader 307 (Header_Set ''Location'' url rw)) \<rparr>"

definition ENOENT :: os_error where
  "ENOENT = \<lparr> IsNotExist = True, Error = ''stat: no such file or directory'' \<rparr>"

definition EACCES :: os_error where
  "EACCES = \<lparr> IsNotExist = False, Error = ''stat: permission denied'' \<rparr>"

definition example_world :: "os_error + FileInfo \<Rightarrow> Time \<Rightarrow> run_outcome \<Rightarrow> world" where
  "example_world st now out =
     \<lparr> os_Stat = (\<lambda>p. if p = ''/tmp/newt-healthy'' then st else Inl ENOENT),
       time_Now = now,
       time_Now_Since = now,
       systemctl_is_active = (\<lambda>u t. out) \<rparr>"

definition active :: run_outcome where
  "active = \<lparr> run_err = None, ctx_DeadlineExceeded = False \<rparr>"

definition failed :: "exec_error \<Rightarrow> run_outcome" where
  "failed e = \<lparr> run_err = Some e, ctx_DeadlineExceeded = False \<rparr>"

definition timed_out :: run_outcome where
  "timed_out = \<lparr> run_err = Some Killed, ctx_DeadlineExceeded = True \<rparr>"

definition example_config :: "bool \<Rightarrow> config" where
  \<comment> \<open>the configuration of an empty environment, with the service-state check switched\<close>
  "example_config b = (main_config example_lib Map.empty)\<lparr> enableSystemd := b \<rparr>"

section \<open>The marker-file check\<close>

text \<open>
  C6: the marker-file check decides its cases in the order of the source. A path that
  does not exist gives \<open>(False, ''health file missing'')\<close>; any other stat error gives
  \<open>False\<close> with the error's text after \<open>''stat error: ''\<close>; a directory gives
  \<open>(False, ''health file path is a directory'')\<close>; otherwise, when the age check is
  disabled (the maximum age is not positive) or passes (the age is not above the maximum
  age), the result is \<open>(True, ''present'')\<close>.
\<close>

theorem checkHealthFile_cases:
  "(os_Stat w path = Inl err \<and> IsNotExist err \<longrightarrow>
      checkHealthFile w path max_age = (False, ''health file missing''))
   \<and> (os_Stat w path = Inl err \<and> \<not> IsNotExist err \<longrightarrow>
      checkHealthFile w path max_age = (False, ''stat error: '' @ Error err))
   \<and> (os_Stat w path = Inr fi \<and> IsDir fi \<longrightarrow>
      checkHealthFile w path max_age = (False, ''health file path is a directory''))
   \<and> (os_Stat w path = Inr fi \<and> \<not> IsDir fi
        \<and> (max_age \<le> 0 \<or> time_Since (time_Now_Since w) (ModTime fi) \<le> max_age) \<longrightarrow>
      checkHealthFile w path max_age = (True, ''present''))"
  by (auto simp: checkHealthFile_def Let_def)

theorem checkHealthFile_cases_witness:
  "checkHealthFile (example_world (Inl ENOENT) 100 active) ''/tmp/newt-healthy'' (2 * Minute)
     = (False, ''health file missing'')
   \<and> checkHealthFile (example_world (Inl EACCES) 100 active) ''/tmp/newt-healthy'' (2 * Minute)
     = (False, ''stat error: stat: permission denied'')
   \<and> checkHealthFile (example_world (Inr \<lparr> IsDir = True, ModTime = 0 \<rparr>) 100 active)
       ''/tmp/newt-healthy'' (2 * Minute)
     = (False, ''health file path is a directory'')
   \<and> checkHealthFile (example_world (Inr \<lparr> IsDir = False, ModTime = 0 \<rparr>) 100 active)
       ''/tmp/newt-healthy'' (2 * Minute)
     = (True, ''present'')"
proof -
  let ?d = "\<lparr> IsDir = True, ModTime = 0 \<rparr>"
  let ?f = "\<lparr> IsDir = False, ModTime = 0 \<rparr>"
  let ?p = "''/tmp/newt-healthy''"
  have age: "time_Since 100 0 \<le> 2 * Minute"
    by (simp add: time_Since_def Time_Sub_def minDuration_def maxDuration_def Minute_def Second_def)
  show ?thesis
    using checkHealthFile_cases [of "example_world (Inl ENOENT) 100 active" ?p ENOENT "2 * Minute" ?f]
      checkHealthFile_cases [of "example_world (Inl EACCES) 100 active" ?p EACCES "2 * Minute" ?f]
      checkHealthFile_cases [of "example_world (Inr ?d) 100 active" ?p ENOENT "2 * Minute" ?d]
      checkHealthFile_cases [of "example_world (Inr ?f) 100 active" ?p ENOENT "2 * Minute" ?f]
      age
    by (simp add: example_world_def ENOENT_def EACCES_def)
qed

section \<open>The service-state check\<close>

text \<open>
  C7: the service-state check returns \<open>(True, ''active'')\<close> when the query returns
  without error, \<open>(False, ''systemctl timeout'')\<close> when it fails and the deadline of the
  timeout has passed, and \<open>(False, ''not active'')\<close> for every other error of the query,
  whatever the error is (a non-zero exit for an inactive or unknown unit, no service
  manager to run).
\<close>

theorem checkSystemd_cases:
  "(run_err (systemctl_is_active w unit timeout) = None \<longrightarrow>
      checkSystemd w unit timeout = (True, ''active''))
   \<and> (run_err (systemctl_is_active w unit timeout) = Some e
        \<and> ctx_DeadlineExceeded (systemctl_is_active w unit timeout) \<longrightarrow>
      checkSystemd w unit timeout = (False, ''systemctl timeout''))
   \<and> (run_err (systemctl_is_active w unit timeout) = Some e
        \<and> \<not> ctx_DeadlineExceeded (systemctl_is_active w unit timeout) \<longrightarrow>
      checkSystemd w unit timeout = (False, ''not active''))"
  by (simp add: checkSystemd_def)

theorem checkSystemd_cases_witness:
  "checkSystemd (example_world (Inl ENOENT) 100 active) ''newt'' Second = (True, ''active'')
   \<and> checkSystemd (example_world (Inl ENOENT) 100 timed_out) ''newt'' Second
     = (False, ''systemctl timeout'')
   \<and> checkSystemd (example_world (Inl ENOENT) 100 (failed (ExitError 3))) ''newt'' Second
     = (False, ''not active'')
   \<and> checkSystemd (example_world (Inl ENOENT) 100 (failed ErrNotFound)) ''newt'' Second
     = (False, ''not active'')"
  using checkSystemd_cases [of "example_world (Inl ENOENT) 100 active" "''newt''" Second Killed]
    checkSystemd_cases [of "example_world (Inl ENOENT) 100 timed_out" "''newt''" Second Killed]
    checkSystemd_cases [of "example_world (Inl ENOENT) 100 (failed (ExitError 3))" "''newt''" Second "ExitError 3"]
    checkSystemd_cases [of "example_world (Inl ENOENT) 100 (failed ErrNotFound)" "''newt''" Second ErrNotFound]
  by (simp add: example_world_def active_def timed_out_def failed_def)

section \<open>Configuration defaults\<close>

lemma os_Getenv_init:
  "k \<noteq> ''LISTEN_ADDR'' \<Longrightarrow> os_Getenv (init lib e) k = os_Getenv e k"
  by (simp add: init_def os_Getenv_def Let_def split: option.splits)

lemma parseDurationEnv_init:
  "k \<noteq> ''LISTEN_ADDR'' \<Longrightarrow>
     parseDurationEnv lib (init lib e) k d = parseDurationEnv lib e k d"
  by (simp add: parseDurationEnv_def os_Getenv_init)

lemma maxAge_main_config:
  "maxAge (main_config lib e) = parseDurationEnv lib e ''MAX_AGE'' (2 * Minute)"
  by (simp add: main_config_def Let_def parseDurationEnv_init)

text \<open>
  C5 (the code differs from its documentation): with \<^verbatim>\<open>NEWT_HEALTH_FILE\<close> unset or
  empty, the marker path \<^verbatim>\<open>main\<close> resolves is \<^verbatim>\<open>/tmp/newt-healthy\<close>, not the
  \<^verbatim>\<open>/run/newt/healthy\<close> of the documentation.
\<close>

theorem healthFile_default_is_tmp:
  "os_Getenv e ''NEWT_HEALTH_FILE'' = [] \<Longrightarrow>
     healthFile (main_config lib e) = ''/tmp/newt-healthy''
     \<and> healthFile (main_config lib e) \<noteq> ''/run/newt/healthy''"
  by (simp add: main_config_def getenv_def os_Getenv_init Let_def)

theorem healthFile_default_is_tmp_witness:
  "os_Getenv Map.empty ''NEWT_HEALTH_FILE'' = []
   \<and> healthFile (main_config example_lib Map.empty) = ''/tmp/newt-healthy''
   \<and> healthFile (main_config example_lib Map.empty) \<noteq> ''/run/newt/healthy''"
  using healthFile_default_is_tmp [of Map.empty example_lib]
  by (simp add: os_Getenv_def)

text \<open>
  C10: \<^verbatim>\<open>parseDurationEnv\<close> returns its default when the variable is unset (or
  empty) or when \<^verbatim>\<open>time.ParseDuration\<close> rejects its value; it has no other
  outcome. So \<^verbatim>\<open>MAX_AGE\<close> falls back to two minutes and
  \<^verbatim>\<open>SYSTEMD_TIMEOUT\<close> to one second, and \<^verbatim>\<open>main\<close> goes on with that value.
\<close>

theorem parseDurationEnv_default:
  "(os_Getenv e k = [] \<or> ParseDuration lib (os_Getenv e k) = None \<longrightarrow>
      parseDurationEnv lib e k d = d)
   \<and> (os_Getenv e ''MAX_AGE'' = [] \<or> ParseDuration lib (os_Getenv e ''MAX_AGE'') = None \<longrightarrow>
      maxAge (main_config lib e) = 2 * Minute)
   \<and> (os_Getenv e ''SYSTEMD_TIMEOUT'' = []
        \<or> ParseDuration lib (os_Getenv e ''SYSTEMD_TIMEOUT'') = None \<longrightarrow>
      systemdTimeout (main_config lib e) = Second)"
  by (auto simp: parseDurationEnv_def main_config_def os_Getenv_init Let_def)

theorem parseDurationEnv_default_witness:
  "ParseDuration example_lib (os_Getenv [''MAX_AGE'' \<mapsto> ''2 minutes''] ''MAX_AGE'') = None
   \<and> maxAge (main_config example_lib [''MAX_AGE'' \<mapsto> ''2 minutes'']) = 2 * Minute
   \<and> os_Getenv [''MAX_AGE'' \<mapsto> ''2 minutes''] ''SYSTEMD_TIMEOUT'' = []
   \<and> systemdTimeout (main_config example_lib [''MAX_AGE'' \<mapsto> ''2 minutes'']) = Second
   \<and> parseDurationEnv example_lib [''MAX_AGE'' \<mapsto> ''2 minutes''] ''MAX_AGE'' 7 = 7"
  using parseDurationEnv_default
    [of "[''MAX_AGE'' \<mapsto> ''2 minutes'']" "''MAX_AGE''" example_lib 7]
  by (simp add: os_Getenv_def example_lib_def)

section \<open>The age of the marker\<close>

text \<open>
  The age the check compares is \<^verbatim>\<open>time.Since(fi.ModTime())\<close>: the difference of the
  clock and the modification time whenever that difference is a \<^verbatim>\<open>Duration\<close>.
\<close>

lemma time_Since_exact:
  "minDuration \<le> now - t \<Longrightarrow> now - t \<le> maxDuration \<Longrightarrow> time_Since now t = now - t"
  by (simp add: time_Since_def Time_Sub_def Let_def)

lemma int64_id: "- (2 ^ 63) \<le> x \<Longrightarrow> x < 2 ^ 63 \<Longrightarrow> int64 x = x"
  by (simp add: int64_def)

lemma uint64_id: "0 \<le> x \<Longrightarrow> x < 2 ^ 64 \<Longrightarrow> uint64 x = x"
  by (simp add: uint64_def)

text \<open>
  \<^verbatim>\<open>age.Round(time.Second)\<close> of an age at least a second below the largest duration is
  the nearest whole number of seconds, a half rounding up.
\<close>

lemma Duration_Round_Second:
  assumes "0 \<le> d" and "d \<le> maxDuration - Second"
  shows "Duration_Round d Second =
           (if 2 * (d mod Second) < Second then d - d mod Second
            else d - d mod Second + Second)"
proof -
  let ?r = "d mod Second"
  have S: "Second = 1000000000" by (simp add: Second_def)
  have r: "0 \<le> ?r" "?r < 1000000000" by (simp_all add: S)
  have d: "d \<le> 9223372035854775807" using assms(2) by (simp add: maxDuration_def S)
  have rd: "?r \<le> d" using assms(1) by (simp add: S zmod_le_nonneg_dividend)
  have g: "go_rem d Second = ?r" using assms(1) by (simp add: go_rem_def S)
  have l: "lessThanHalf ?r Second = (2 * ?r < Second)"
    using r by (simp add: lessThanHalf_def uint64_id S)
  have a: "int64 (d - ?r) = d - ?r"
    using r d rd assms(1) by (intro int64_id) simp_all
  have b: "int64 (d + Second - ?r) = d + Second - ?r"
    using r d rd assms(1) unfolding S by (intro int64_id) simp_all
  have c: "d < d + Second - ?r" using r by (simp add: S)
  show ?thesis
    using assms(1) g l a b c by (simp add: Duration_Round_def Let_def S)
qed

lemma Duration_Round_Second_whole:
  assumes "0 \<le> d" and "d \<le> maxDuration - Second"
  shows "Duration_Round d Second mod Second = 0
         \<and> 2 * \<bar>Duration_Round d Second - d\<bar> \<le> Second"
proof -
  have S: "Second = 1000000000" by (simp add: Second_def)
  have r: "0 \<le> d mod Second" "d mod Second < Second" by (simp_all add: S)
  have m: "(d - d mod Second) mod Second = 0"
    by (simp add: minus_mod_eq_mult_div)
  have m': "(d - d mod Second + Second) mod Second = 0"
    using m by (metis mod_add_self2)
  show ?thesis
    unfolding Duration_Round_Second [OF assms] using r m m' by auto
qed

lemma sublist_append_mid: "sublist b (a @ b @ c)"
  by (auto simp: sublist_def)

text \<open>
  C2, as the code has it: for a positive maximum age and a path that exists and is not a
  directory, when the age exceeds the maximum age the check fails, and its message is
  \<open>''health file too old: ''\<close>, the age rounded to whole seconds by
  \<^verbatim>\<open>Duration.Round\<close>, \<open>'' > ''\<close> and the maximum age as
  \<^verbatim>\<open>Duration.String\<close> prints it, which is not rounded. The message contains both
  texts.
\<close>

theorem checkHealthFile_too_old:
  assumes "0 < max_age"
    and "os_Stat w path = Inr fi"
    and "\<not> IsDir fi"
    and "max_age < time_Since (time_Now_Since w) (ModTime fi)"
  shows "checkHealthFile w path max_age =
           (False,
            ''health file too old: ''
              @ Duration_String (Duration_Round (time_Since (time_Now_Since w) (ModTime fi)) Second)
              @ '' > '' @ Duration_String max_age)
         \<and> sublist
              (Duration_String (Duration_Round (time_Since (time_Now_Since w) (ModTime fi)) Second))
              (snd (checkHealthFile w path max_age))
         \<and> sublist (Duration_String max_age) (snd (checkHealthFile w path max_age))"
proof -
  let ?age = "time_Since (time_Now_Since w) (ModTime fi)"
  let ?a = "Duration_String (Duration_Round ?age Second)"
  let ?t = "Duration_String max_age"
  have r: "checkHealthFile w path max_age
             = (False, ''health file too old: '' @ ?a @ '' > '' @ ?t)"
    using assms by (simp add: checkHealthFile_def Let_def)
  have "sublist ?a (''health file too old: '' @ ?a @ ('' > '' @ ?t))"
    by (rule sublist_append_mid)
  moreover have "sublist ?t ((''health file too old: '' @ ?a @ '' > '') @ ?t @ [])"
    by (rule sublist_append_mid)
  ultimately show ?thesis
    using r by simp
qed

theorem checkHealthFile_too_old_witness:
  "(0 :: Duration) < 2 * Minute
   \<and> os_Stat (example_world (Inr \<lparr> IsDir = False, ModTime = 0 \<rparr>) 125300000000 active)
         ''/tmp/newt-healthy''
       = Inr \<lparr> IsDir = False, ModTime = 0 \<rparr>
   \<and> 2 * Minute < time_Since 125300000000 0
   \<and> checkHealthFile (example_world (Inr \<lparr> IsDir = False, ModTime = 0 \<rparr>) 125300000000 active)
         ''/tmp/newt-healthy'' (2 * Minute)
       = (False, ''health file too old: 2m5s > 2m0s'')"
proof -
  let ?f = "\<lparr> IsDir = False, ModTime = 0 \<rparr>"
  let ?w = "example_world (Inr ?f) 125300000000 active"
  have h1: "(0 :: Duration) < 2 * Minute"
    by (simp add: Minute_def Second_def)
  have h2: "os_Stat ?w ''/tmp/newt-healthy'' = Inr ?f"
    by (simp add: example_world_def)
  have h3: "\<not> IsDir ?f"
    by simp
  have age: "time_Since 125300000000 0 = 125300000000"
    by (simp add: time_Since_exact minDuration_def maxDuration_def)
  have h4: "2 * Minute < time_Since (time_Now_Since ?w) (ModTime ?f)"
    by (simp add: example_world_def age Minute_def Second_def)
  have a: "Duration_String (Duration_Round 125300000000 Second) = ''2m5s''"
    by code_simp
  have t: "Duration_String (2 * Minute) = ''2m0s''"
    by code_simp
  have n: "time_Now_Since ?w = 125300000000"
    by (simp add: example_world_def)
  show ?thesis
    using checkHealthFile_too_old [OF h1 h2 h3 h4] h1 h2 h4
    by (simp add: n age a t)
qed

text \<open>
  The claim as stated fails where the maximum age is not a whole number of seconds: with
  a maximum age of 1.5s and a marker ten seconds old the message is
  \<open>''health file too old: 10s > 1.5s''\<close>; the threshold rounded to whole seconds, \<open>''2s''\<close>,
  does not occur in it.
\<close>

theorem too_old_threshold_counterexample:
  "(0 :: Duration) < 1500000000
   \<and> os_Stat (example_world (Inr \<lparr> IsDir = False, ModTime = 0 \<rparr>) 10000000000 active)
         ''/tmp/newt-healthy''
       = Inr \<lparr> IsDir = False, ModTime = 0 \<rparr>
   \<and> (1500000000 :: Duration) < 10000000000 - 0
   \<and> checkHealthFile (example_world (Inr \<lparr> IsDir = False, ModTime = 0 \<rparr>) 10000000000 active)
         ''/tmp/newt-healthy'' 1500000000
       = (False, ''health file too old: 10s > 1.5s'')
   \<and> Duration_String (Duration_Round 1500000000 Second) = ''2s''
   \<and> \<not> sublist (Duration_String (Duration_Round 1500000000 Second))
         (snd (checkHealthFile
                 (example_world (Inr \<lparr> IsDir = False, ModTime = 0 \<rparr>) 10000000000 active)
                 ''/tmp/newt-healthy'' 1500000000))"
  by code_simp

text \<open>
  C9, as the code has it: a maximum age of zero (or below) disables the age check; a path
  that exists and is not a directory then passes whatever its modification time is.
\<close>

theorem age_check_disabled:
  "max_age \<le> 0 \<Longrightarrow> os_Stat w path = Inr fi \<Longrightarrow> \<not> IsDir fi \<Longrightarrow>
     checkHealthFile w path max_age = (True, ''present'')"
  by (simp add: checkHealthFile_def)

theorem age_check_disabled_witness:
  "maxAge (main_config example_lib [''MAX_AGE'' \<mapsto> ''0'']) = 0
   \<and> os_Stat (example_world (Inr \<lparr> IsDir = False, ModTime = 0 \<rparr>) (3600 * Second) active)
         ''/tmp/newt-healthy''
       = Inr \<lparr> IsDir = False, ModTime = 0 \<rparr>
   \<and> checkHealthFile (example_world (Inr \<lparr> IsDir = False, ModTime = 0 \<rparr>) (3600 * Second) active)
         ''/tmp/newt-healthy'' (maxAge (main_config example_lib [''MAX_AGE'' \<mapsto> ''0'']))
       = (True, ''present'')"
proof -
  have m: "maxAge (main_config example_lib [''MAX_AGE'' \<mapsto> ''0'']) = 0"
    by (simp add: maxAge_main_config parseDurationEnv_def os_Getenv_def example_lib_def)
  have s: "os_Stat (example_world (Inr \<lparr> IsDir = False, ModTime = 0 \<rparr>) (3600 * Second) active)
             ''/tmp/newt-healthy''
           = Inr \<lparr> IsDir = False, ModTime = 0 \<rparr>"
    by (simp add: example_world_def)
  show ?thesis
    using age_check_disabled [OF _ s, of 0] m s by simp
qed

text \<open>
  An absent setting does not disable the age check: with \<^verbatim>\<open>MAX_AGE\<close> unset the
  maximum age is the default of two minutes, and a marker one hour old fails.
\<close>

theorem age_check_absent_setting_counterexample:
  "os_Getenv Map.empty ''MAX_AGE'' = []
   \<and> maxAge (main_config example_lib Map.empty) = 2 * Minute
   \<and> os_Stat (example_world (Inr \<lparr> IsDir = False, ModTime = 0 \<rparr>) (3600 * Second) active)
         ''/tmp/newt-healthy''
       = Inr \<lparr> IsDir = False, ModTime = 0 \<rparr>
   \<and> checkHealthFile (example_world (Inr \<lparr> IsDir = False, ModTime = 0 \<rparr>) (3600 * Second) active)
         ''/tmp/newt-healthy'' (maxAge (main_config example_lib Map.empty))
       = (False, ''health file too old: 1h0m0s > 2m0s'')"
proof -
  have m: "maxAge (main_config example_lib Map.empty) = 2 * Minute"
    by (simp add: maxAge_main_config parseDurationEnv_def os_Getenv_def)
  have c: "checkHealthFile (example_world (Inr \<lparr> IsDir = False, ModTime = 0 \<rparr>) (3600 * Second) active)
             ''/tmp/newt-healthy'' (2 * Minute)
           = (False, ''health file too old: 1h0m0s > 2m0s'')"
    by code_simp
  show ?thesis
    using m c by (simp add: os_Getenv_def example_world_def)
qed

section \<open>The health endpoint\<close>

lemma cleanPath_healthz: "cleanPath ''/healthz'' = ''/healthz''"
  by code_simp

lemma ServeMux_match_healthz: "ServeMux_match ''/healthz'' = Some ''/healthz''"
  by code_simp

lemma ServeHTTP_healthz:
  "ServeHTTP http cfg w ''/healthz'' = healthz cfg w new_ResponseWriter"
  by (simp add: ServeHTTP_def cleanPath_healthz ServeMux_match_healthz)

text \<open>What the handler has written when it returns, without and with the service-state check.\<close>

lemma healthz_disabled:
  "\<not> enableSystemd cfg \<Longrightarrow>
   healthz cfg w new_ResponseWriter =
     \<lparr> Header = [''Content-Type'' \<mapsto> ''application/json''],
       wroteHeader = True,
       sent =
         [HeaderBlock (if fst (checkHealthFile w (healthFile cfg) (maxAge cfg)) then 200 else 503)
            Map.empty,
          BodyChunk (JSON
            \<lparr> OK = fst (checkHealthFile w (healthFile cfg) (maxAge cfg)),
              Now = time_Now w,
              Checks = [''newt_health_file'' \<mapsto>
                \<lparr> CheckDetail.OK = fst (checkHealthFile w (healthFile cfg) (maxAge cfg)),
                  Message = snd (checkHealthFile w (healthFile cfg) (maxAge cfg)) \<rparr>] \<rparr>)] \<rparr>"
  by (simp add: healthz_def new_ResponseWriter_def WriteHeader_def Header_Set_def Encode_def
      Write_def StatusOK_def StatusServiceUnavailable_def Let_def split: prod.splits)

lemma healthz_enabled:
  "enableSystemd cfg \<Longrightarrow>
   healthz cfg w new_ResponseWriter =
     \<lparr> Header = [''Content-Type'' \<mapsto> ''application/json''],
       wroteHeader = True,
       sent =
         [HeaderBlock
            (if fst (checkHealthFile w (healthFile cfg) (maxAge cfg))
                \<and> fst (checkSystemd w (systemdUnit cfg) (systemdTimeout cfg))
             then 200 else 503)
            Map.empty,
          BodyChunk (JSON
            \<lparr> OK = (fst (checkHealthFile w (healthFile cfg) (maxAge cfg))
                     \<and> fst (checkSystemd w (systemdUnit cfg) (systemdTimeout cfg))),
              Now = time_Now w,
              Checks = [''newt_health_file'' \<mapsto>
                \<lparr> CheckDetail.OK = fst (checkHealthFile w (healthFile cfg) (maxAge cfg)),
                  Message = snd (checkHealthFile w (healthFile cfg) (maxAge cfg)) \<rparr>,
                ''systemd'' \<mapsto>
                \<lparr> CheckDetail.OK = fst (checkSystemd w (systemdUnit cfg) (systemdTimeout cfg)),
                  Message = snd (checkSystemd w (systemdUnit cfg) (systemdTimeout cfg)) \<rparr>] \<rparr>)] \<rparr>"
  by (simp add: healthz_def new_ResponseWriter_def WriteHeader_def Header_Set_def Encode_def
      Write_def StatusOK_def StatusServiceUnavailable_def Let_def split: prod.splits)

lemma ran_two: "k1 \<noteq> k2 \<Longrightarrow> ran [k1 \<mapsto> v1, k2 \<mapsto> v2] = {v1, v2}"
  by (auto simp: ran_def)

lemma init_empty: "init lib Map.empty = Map.empty"
  by (simp add: init_def os_Getenv_def)

lemma example_config_fields:
  "healthFile (example_config b) = ''/tmp/newt-healthy''"
  "maxAge (example_config b) = 2 * Minute"
  "enableSystemd (example_config b) = b"
  "systemdUnit (example_config b) = ''newt''"
  "systemdTimeout (example_config b) = Second"
  by (simp_all add: example_config_def main_config_def init_empty getenv_def
      parseDurationEnv_def os_Getenv_def)

lemma example_fresh:
  "checkHealthFile (example_world (Inr \<lparr> IsDir = False, ModTime = 0 \<rparr>) 100 out)
     ''/tmp/newt-healthy'' (2 * Minute) = (True, ''present'')"
  by (simp add: checkHealthFile_def example_world_def time_Since_def Time_Sub_def
      minDuration_def maxDuration_def Minute_def Second_def Let_def)

lemma example_missing:
  "checkHealthFile (example_world (Inl ENOENT) 100 out) ''/tmp/newt-healthy'' (2 * Minute)
     = (False, ''health file missing'')"
  by (simp add: checkHealthFile_def example_world_def ENOENT_def)

lemma example_systemd:
  "checkSystemd (example_world st 100 active) ''newt'' Second = (True, ''active'')"
  "checkSystemd (example_world st 100 (failed e)) ''newt'' Second = (False, ''not active'')"
  by (simp_all add: checkSystemd_def example_world_def active_def failed_def)

text \<open>
  C1: the response to \<^verbatim>\<open>/healthz\<close> is one header block followed by the encoded
  \<^verbatim>\<open>Result\<close>. Its status is 200 exactly when every check entered in the
  \<^verbatim>\<open>checks\<close> map is ok, and 503 otherwise; the top-level \<^verbatim>\<open>ok\<close> is the
  conjunction of the entries' \<^verbatim>\<open>ok\<close>, that is, of the marker-file check and, when it
  is enabled, the service-state check; and \<^verbatim>\<open>ok\<close> is true exactly when the status is
  200.
\<close>

theorem healthz_status_iff_all_checks_ok:
  "\<exists>st hdr res.
     sent (ServeHTTP http cfg w ''/healthz'') = [HeaderBlock st hdr, BodyChunk (JSON res)]
     \<and> (st = 200 \<longleftrightarrow> (\<forall>d \<in> ran (Checks res). CheckDetail.OK d))
     \<and> (st \<noteq> 200 \<longrightarrow> st = 503)
     \<and> (OK res \<longleftrightarrow> (\<forall>d \<in> ran (Checks res). CheckDetail.OK d))
     \<and> (OK res \<longleftrightarrow> st = 200)
     \<and> (OK res \<longleftrightarrow>
          fst (checkHealthFile w (healthFile cfg) (maxAge cfg))
          \<and> (enableSystemd cfg \<longrightarrow>
                fst (checkSystemd w (systemdUnit cfg) (systemdTimeout cfg))))"
proof (cases "enableSystemd cfg")
  case True
  show ?thesis
    unfolding ServeHTTP_healthz healthz_enabled [OF True]
    by (auto simp: ran_two True)
next
  case False
  show ?thesis
    unfolding ServeHTTP_healthz healthz_disabled [OF False]
    by (auto simp: False)
qed

theorem healthz_status_iff_all_checks_ok_witness:
  "sent (ServeHTTP example_http (example_config True)
           (example_world (Inr \<lparr> IsDir = False, ModTime = 0 \<rparr>) 100 active) ''/healthz'')
     = [HeaderBlock 200 Map.empty,
        BodyChunk (JSON
          \<lparr> OK = True, Now = 100,
            Checks = [''newt_health_file'' \<mapsto> \<lparr> CheckDetail.OK = True, Message = ''present'' \<rparr>,
                      ''systemd'' \<mapsto> \<lparr> CheckDetail.OK = True, Message = ''active'' \<rparr>] \<rparr>)]
   \<and> sent (ServeHTTP example_http (example_config True)
           (example_world (Inr \<lparr> IsDir = False, ModTime = 0 \<rparr>) 100 (failed (ExitError 3)))
           ''/healthz'')
     = [HeaderBlock 503 Map.empty,
        BodyChunk (JSON
          \<lparr> OK = False, Now = 100,
            Checks = [''newt_health_file'' \<mapsto> \<lparr> CheckDetail.OK = True, Message = ''present'' \<rparr>,
                      ''systemd'' \<mapsto> \<lparr> CheckDetail.OK = False, Message = ''not active'' \<rparr>] \<rparr>)]"
  using healthz_status_iff_all_checks_ok
      [of example_http "example_config True"
          "example_world (Inr \<lparr> IsDir = False, ModTime = 0 \<rparr>) 100 active"]
    healthz_status_iff_all_checks_ok
      [of example_http "example_config True"
          "example_world (Inr \<lparr> IsDir = False, ModTime = 0 \<rparr>) 100 (failed (ExitError 3))"]
  by (simp add: ServeHTTP_healthz healthz_enabled example_config_fields example_fresh
      example_systemd)
     (simp add: example_world_def)

text \<open>
  C8: with the service-state check disabled the \<^verbatim>\<open>checks\<close> map has the single key
  \<^verbatim>\<open>newt_health_file\<close> (so no \<^verbatim>\<open>systemd\<close> key), the verdict and the status are
  those of the marker-file check alone, and the response is the same whatever the service
  manager would answer.
\<close>

theorem systemd_disabled_frame:
  assumes "\<not> enableSystemd cfg"
  shows "\<exists>st hdr res.
     sent (ServeHTTP http cfg w ''/healthz'') = [HeaderBlock st hdr, BodyChunk (JSON res)]
     \<and> Checks res ''systemd'' = None
     \<and> dom (Checks res) = {''newt_health_file''}
     \<and> OK res = fst (checkHealthFile w (healthFile cfg) (maxAge cfg))
     \<and> (st = 200 \<longleftrightarrow> fst (checkHealthFile w (healthFile cfg) (maxAge cfg)))
     \<and> ServeHTTP http cfg (w\<lparr> systemctl_is_active := s' \<rparr>) ''/healthz''
         = ServeHTTP http cfg w ''/healthz''"
proof -
  have c: "checkHealthFile (w\<lparr> systemctl_is_active := s' \<rparr>) p m = checkHealthFile w p m"
    for p m
    by (simp add: checkHealthFile_def Let_def split: sum.splits)
  show ?thesis
    unfolding ServeHTTP_healthz healthz_disabled [OF assms]
    by (simp add: c)
qed

theorem systemd_disabled_frame_witness:
  "\<not> enableSystemd (example_config False)
   \<and> sent (ServeHTTP example_http (example_config False)
           (example_world (Inr \<lparr> IsDir = False, ModTime = 0 \<rparr>) 100 (failed (ExitError 3)))
           ''/healthz'')
     = [HeaderBlock 200 Map.empty,
        BodyChunk (JSON
          \<lparr> OK = True, Now = 100,
            Checks = [''newt_health_file'' \<mapsto>
                        \<lparr> CheckDetail.OK = True, Message = ''present'' \<rparr>] \<rparr>)]"
proof -
  have h: "\<not> enableSystemd (example_config False)"
    by (simp add: example_config_fields)
  show ?thesis
    using systemd_disabled_frame
      [OF h, of example_http
         "example_world (Inr \<lparr> IsDir = False, ModTime = 0 \<rparr>) 100 (failed (ExitError 3))"]
      h
    by (simp add: ServeHTTP_healthz healthz_disabled example_config_fields example_fresh)
       (simp add: example_world_def)
qed

text \<open>
  C4 (the code misses what it attempts): the handler calls \<^verbatim>\<open>WriteHeader\<close> before it
  sets \<^verbatim>\<open>Content-Type\<close>, so the header block of every \<^verbatim>\<open>/healthz\<close> response is
  written with an empty header map; \<^verbatim>\<open>application/json\<close> reaches the handler's map
  only afterwards and is not sent. The header block does precede the body.
\<close>

theorem healthz_content_type_after_header:
  "\<exists>st hdr res.
     sent (ServeHTTP http cfg w ''/healthz'') = [HeaderBlock st hdr, BodyChunk (JSON res)]
     \<and> hdr = Map.empty
     \<and> hdr ''Content-Type'' \<noteq> Some ''application/json''
     \<and> Header (ServeHTTP http cfg w ''/healthz'') ''Content-Type'' = Some ''application/json''"
proof (cases "enableSystemd cfg")
  case True
  show ?thesis
    unfolding ServeHTTP_healthz healthz_enabled [OF True] by simp
next
  case False
  show ?thesis
    unfolding ServeHTTP_healthz healthz_disabled [OF False] by simp
qed

section \<open>Other paths\<close>

lemma path_Clean_slash: "prefix ''/'' (path_Clean p)"
  by (simp add: path_Clean_def split: list.splits)

lemma cleanPath_slash: "prefix ''/'' (cleanPath p)"
proof (cases "p = []")
  case True
  then show ?thesis by (simp add: cleanPath_def)
next
  case False
  then obtain c cs where p: "p = c # cs" by (cases p) auto
  have n: "prefix ''/'' (path_Clean q)" for q by (rule path_Clean_slash)
  then have n': "prefix ''/'' (path_Clean q @ ''/'')" for q
    using prefix_prefix by blast
  show ?thesis
    using n n' by (auto simp: cleanPath_def Let_def p)
qed

lemma root_sent:
  "root new_ResponseWriter =
     \<lparr> Header = Map.empty, wroteHeader = True,
       sent = [HeaderBlock 200 Map.empty, BodyChunk (Bytes (''ok'' @ [char_of (10 :: nat)]))] \<rparr>"
  by (simp add: root_def new_ResponseWriter_def WriteHeader_def Write_def StatusOK_def)

lemma unescape_slash:
  "unescape (CHR ''/'' # s) = Some d \<Longrightarrow> \<exists>d'. unescape s = Some d' \<and> d = CHR ''/'' # d'"
  by (simp split: option.splits)

lemma takeWhile_all: "dropWhile P xs = [] \<Longrightarrow> takeWhile P xs = xs"
  by (simp add: dropWhile_eq_Nil_conv)

text \<open>A clean path whose unescaped text is not \<^verbatim>\<open>/healthz\<close> matches the pattern \<^verbatim>\<open>"/"\<close>.\<close>

lemma ServeMux_match_root:
  assumes "cleanPath path = path"
    and "unescape path = Some decoded"
    and "decoded \<noteq> ''/healthz''"
  shows "ServeMux_match path = Some ''/''"
proof -
  have "prefix ''/'' path"
    using cleanPath_slash [of path] assms(1) by simp
  then obtain s where p: "path = CHR ''/'' # s"
    by (auto simp: prefix_def)
  obtain d' where d: "unescape s = Some d'" "decoded = CHR ''/'' # d'"
    using unescape_slash assms(2) unfolding p by blast
  have "\<not> (pathUnescape (takeWhile (\<lambda>c. c \<noteq> CHR ''/'') s) = ''healthz''
           \<and> dropWhile (\<lambda>c. c \<noteq> CHR ''/'') s = [])"
  proof
    assume a: "pathUnescape (takeWhile (\<lambda>c. c \<noteq> CHR ''/'') s) = ''healthz''
                 \<and> dropWhile (\<lambda>c. c \<noteq> CHR ''/'') s = []"
    then have "takeWhile (\<lambda>c. c \<noteq> CHR ''/'') s = s"
      by (simp add: takeWhile_all)
    with a have "pathUnescape s = ''healthz''"
      by simp
    then have "d' = ''healthz''"
      using d(1) by (simp add: pathUnescape_def)
    then show False
      using d(2) assms(3) by simp
  qed
  then show ?thesis
    by (auto simp: ServeMux_match_def firstSegment_def p Let_def)
qed

text \<open>
  C3, as the code has it: the pattern \<^verbatim>\<open>"/"\<close> matches every path, so a request whose
  path is not \<^verbatim>\<open>/healthz\<close> and which the mux does not redirect (its escaped path is
  already clean) is answered by the root handler with status 200 and the body
  \<^verbatim>\<open>ok\<close> and a newline, not by \<^verbatim>\<open>http.NotFound\<close>.
\<close>

theorem other_paths_served_by_root:
  assumes "cleanPath path = path"
    and "unescape path = Some decoded"
    and "decoded \<noteq> ''/healthz''"
  shows "sent (ServeHTTP http cfg w path)
           = [HeaderBlock 200 Map.empty, BodyChunk (Bytes (''ok'' @ [char_of (10 :: nat)]))]
         \<and> sent (ServeHTTP http cfg w path) \<noteq> sent (NotFound new_ResponseWriter)"
proof -
  have n: "sent (NotFound new_ResponseWriter)
             = [HeaderBlock 404
                  [''Content-Type'' \<mapsto> ''text/plain; charset=utf-8'',
                   ''X-Content-Type-Options'' \<mapsto> ''nosniff''],
                BodyChunk (Bytes (''404 page not found'' @ [char_of (10 :: nat)]))]"
    by (simp add: NotFound_def new_ResponseWriter_def Header_Set_def WriteHeader_def Write_def
        StatusNotFound_def)
  show ?thesis
    unfolding n
    by (simp add: ServeHTTP_def Let_def assms(1) ServeMux_match_root [OF assms] root_sent)
qed

theorem other_paths_served_by_root_witness:
  "cleanPath ''/healthz/'' = ''/healthz/''
   \<and> unescape ''/healthz/'' = Some ''/healthz/''
   \<and> ''/healthz/'' \<noteq> ''/healthz''
   \<and> sent (ServeHTTP example_http (example_config False)
             (example_world (Inl ENOENT) 100 active) ''/healthz/'')
       = [HeaderBlock 200 Map.empty, BodyChunk (Bytes (''ok'' @ [char_of (10 :: nat)]))]
   \<and> cleanPath ''/foo%2F..%2Fhealthz'' = ''/foo%2F..%2Fhealthz''
   \<and> unescape ''/foo%2F..%2Fhealthz'' = Some ''/foo/../healthz''
   \<and> sent (ServeHTTP example_http (example_config False)
             (example_world (Inl ENOENT) 100 active) ''/foo%2F..%2Fhealthz'')
       = [HeaderBlock 200 Map.empty, BodyChunk (Bytes (''ok'' @ [char_of (10 :: nat)]))]"
proof -
  have c1: "cleanPath ''/healthz/'' = ''/healthz/''"
    by code_simp
  have u1: "unescape ''/healthz/'' = Some ''/healthz/''"
    by code_simp
  have n1: "''/healthz/'' \<noteq> ''/healthz''"
    by simp
  have c2: "cleanPath ''/foo%2F..%2Fhealthz'' = ''/foo%2F..%2Fhealthz''"
    by code_simp
  have u2: "unescape ''/foo%2F..%2Fhealthz'' = Some ''/foo/../healthz''"
    by code_simp
  have n2: "''/foo/../healthz'' \<noteq> ''/healthz''"
    by simp
  show ?thesis
    using other_paths_served_by_root [OF c1 u1 n1, of example_http "example_config False"
        "example_world (Inl ENOENT) 100 active"]
      other_paths_served_by_root [OF c2 u2 n2, of example_http "example_config False"
        "example_world (Inl ENOENT) 100 active"]
      c1 u1 c2 u2
    by simp
qed

text \<open>
  The claim as stated fails at \<^verbatim>\<open>/foo\<close>: the path is neither \<^verbatim>\<open>/healthz\<close> nor
  \<^verbatim>\<open>/\<close>, and the response is the root handler's 200 with the body \<^verbatim>\<open>ok\<close>,
  not a 404.
\<close>

theorem other_path_counterexample:
  "''/foo'' \<noteq> ''/healthz'' \<and> ''/foo'' \<noteq> ''/''
   \<and> sent (ServeHTTP example_http (example_config False)
             (example_world (Inl ENOENT) 100 active) ''/foo'')
       = [HeaderBlock 200 Map.empty, BodyChunk (Bytes (''ok'' @ [char_of (10 :: nat)]))]
   \<and> sent (ServeHTTP example_http (example_config False)
             (example_world (Inl ENOENT) 100 active) ''/foo'')
       \<noteq> sent (NotFound new_ResponseWriter)"
proof -
  have c: "cleanPath ''/foo'' = ''/foo''"
    by code_simp
  have m: "ServeMux_match ''/foo'' = Some ''/''"
    by code_simp
  have n: "sent (NotFound new_ResponseWriter)
             = [HeaderBlock 404
                  [''Content-Type'' \<mapsto> ''text/plain; charset=utf-8'',
                   ''X-Content-Type-Options'' \<mapsto> ''nosniff''],
                BodyChunk (Bytes (''404 page not found'' @ [char_of (10 :: nat)]))]"
    by (simp add: NotFound_def new_ResponseWriter_def Header_Set_def WriteHeader_def Write_def
        StatusNotFound_def)
  show ?thesis
    unfolding n by (simp add: ServeHTTP_def c m root_sent)
qed

text \<open>
  An escaped spelling of \<^verbatim>\<open>/healthz\<close> is matched after unescaping and reaches the
  health handler; a path that cleaning changes is handed to the redirect handler with the
  cleaned path.
\<close>

lemma escaped_healthz:
  "ServeHTTP http cfg w ''/%68ealthz'' = healthz cfg w new_ResponseWriter"
proof -
  have c: "cleanPath ''/%68ealthz'' = ''/%68ealthz''"
    by code_simp
  have m: "ServeMux_match ''/%68ealthz'' = Some ''/healthz''"
    by code_simp
  show ?thesis
    by (simp add: ServeHTTP_def c m)
qed

lemma unclean_redirected:
  "cleanPath path \<noteq> path \<Longrightarrow>
     ServeHTTP http cfg w path = RedirectHandler http (cleanPath path) new_ResponseWriter"
  by (simp add: ServeHTTP_def Let_def)

end
